theory Spec2Isabelle
  imports Main "HOL-Library.Sublist"
begin

section \<open>Python values handed over by the platform client\<close>

text \<open>
  The tool handlers of \<^verbatim>\<open>tools/competitions.py\<close> receive whatever the platform client
  returns and inspect it dynamically (\<^verbatim>\<open>getattr\<close>, \<^verbatim>\<open>isinstance\<close>, truthiness, \<^verbatim>\<open>str\<close>,
  \<^verbatim>\<open>json.dumps\<close>). The values are therefore modelled as one datatype of Python values.
  A \<open>PObj\<close> is an instance of a class that is not one of the builtin JSON types (a model
  object of the client, a \<^verbatim>\<open>datetime\<close>): it carries the name of its type, what \<^verbatim>\<open>str\<close> and
  \<^verbatim>\<open>repr\<close> give for it, its truth value and its attributes. A \<open>PDict\<close> lists its items in
  insertion order under string keys. Strings are lists of 8-bit characters read as code
  points; floating point numbers are left out.
\<close>

datatype pyval =
    PNone
  | PBool bool
  | PInt int
  | PStr string
  | PList "pyval list"
  | PDict "(string \<times> pyval) list"
  | PObj (type_name: string) (str_form: string) (repr_form: string) (obj_truth: bool)
      (attrs: "(string \<times> pyval) list")

text \<open>A raised exception is the left summand and carries \<^verbatim>\<open>str(e)\<close>.\<close>

type_synonym 'a raising = "string + 'a"

definition py_bind :: "'a raising \<Rightarrow> ('a \<Rightarrow> 'b raising) \<Rightarrow> 'b raising" where
  "py_bind r f = (case r of Inl e \<Rightarrow> Inl e | Inr v \<Rightarrow> f v)"

fun sequence :: "'a raising list \<Rightarrow> 'a list raising" where
  "sequence [] = Inr []"
| "sequence (r # rs) =
     (case r of
        Inl e \<Rightarrow> Inl e
      | Inr v \<Rightarrow> (case sequence rs of Inl e \<Rightarrow> Inl e | Inr vs \<Rightarrow> Inr (v # vs)))"

fun join :: "string \<Rightarrow> string list \<Rightarrow> string" where
  "join sep [] = []"
| "join sep [x] = x"
| "join sep (x # y # ys) = x @ sep @ join sep (y # ys)"

definition quoted :: "string \<Rightarrow> string" where
  "quoted s = CHR 0x27 # s @ [CHR 0x27]"

subsection \<open>Rendering numbers and characters\<close>

definition digit :: "nat \<Rightarrow> char" where
  "digit d = char_of (of_char CHR ''0'' + d)"

fun show_nat :: "nat \<Rightarrow> string" where
  "show_nat n = (if n < 10 then [digit n] else show_nat (n div 10) @ [digit (n mod 10)])"

definition show_int :: "int \<Rightarrow> string" where
  "show_int i = (if i < 0 then CHR ''-'' # show_nat (nat (- i)) else show_nat (nat i))"

definition hex_digit :: "nat \<Rightarrow> char" where
  "hex_digit d = (if d < 10 then digit d else char_of (of_char CHR ''a'' + (d - 10)))"

definition hex2 :: "char \<Rightarrow> string" where
  "hex2 c = [hex_digit (of_char c div 16), hex_digit (of_char c mod 16)]"

subsection \<open>\<^verbatim>\<open>bool(x)\<close>, \<^verbatim>\<open>repr(x)\<close> and \<^verbatim>\<open>str(x)\<close>\<close>

fun py_truthy :: "pyval \<Rightarrow> bool" where
  "py_truthy PNone = False"
| "py_truthy (PBool b) = b"
| "py_truthy (PInt i) = (i \<noteq> 0)"
| "py_truthy (PStr s) = (s \<noteq> [])"
| "py_truthy (PList xs) = (xs \<noteq> [])"
| "py_truthy (PDict kvs) = (kvs \<noteq> [])"
| "py_truthy (PObj tn sf rf t as) = t"

text \<open>
  \<^verbatim>\<open>repr\<close> of a string: quoted with \<^verbatim>\<open>'\<close> unless the string holds a \<^verbatim>\<open>'\<close> and no \<^verbatim>\<open>"\<close>; the
  quote and the backslash are escaped, tab, newline and carriage return have their short
  escapes, every other character that is not printable is written \<^verbatim>\<open>\xNN\<close>.
\<close>

definition printable :: "char \<Rightarrow> bool" where
  "printable c =
     (let n = (of_char c :: nat)
      in (32 \<le> n \<and> n < 127) \<or> (160 < n \<and> n \<noteq> 173))"

definition repr_char :: "char \<Rightarrow> char \<Rightarrow> string" where
  "repr_char q c =
     (if c = q \<or> c = CHR 0x5C then [CHR 0x5C, c]
      else if c = CHR 0x09 then [CHR 0x5C, CHR ''t'']
      else if c = CHR 0x0A then [CHR 0x5C, CHR ''n'']
      else if c = CHR 0x0D then [CHR 0x5C, CHR ''r'']
      else if printable c then [c]
      else [CHR 0x5C, CHR ''x''] @ hex2 c)"

definition repr_str :: "string \<Rightarrow> string" where
  "repr_str s =
     (let q = (if CHR 0x27 \<in> set s \<and> CHR 0x22 \<notin> set s then CHR 0x22 else CHR 0x27)
      in [q] @ concat (map (repr_char q) s) @ [q])"

fun py_repr :: "pyval \<Rightarrow> string" where
  "py_repr PNone = ''None''"
| "py_repr (PBool b) = (if b then ''True'' else ''False'')"
| "py_repr (PInt i) = show_int i"
| "py_repr (PStr s) = repr_str s"
| "py_repr (PList xs) = ''['' @ join '', '' (map py_repr xs) @ '']''"
| "py_repr (PDict kvs) =
     ''{'' @ join '', '' (map (\<lambda>kv. repr_str (fst kv) @ '': '' @ py_repr (snd kv)) kvs) @ ''}''"
| "py_repr (PObj tn sf rf t as) = rf"

fun py_str :: "pyval \<Rightarrow> string" where
  "py_str (PStr s) = s"
| "py_str (PObj tn sf rf t as) = sf"
| "py_str v = py_repr v"

subsection \<open>\<^verbatim>\<open>json.dumps(x, indent=2)\<close>\<close>

text \<open>
  The encoder escapes every character outside the range from space to \<^verbatim>\<open>~\<close>, the quote and
  the backslash (\<^verbatim>\<open>ensure_ascii\<close>). With an indent, the items of a non-empty list or dict
  stand on lines of their own, separated by a comma, and an empty container is \<^verbatim>\<open>[]\<close> or
  \<^verbatim>\<open>{}\<close>. An object that is not of a JSON type raises \<^verbatim>\<open>TypeError\<close>.
\<close>

definition json_char :: "char \<Rightarrow> string" where
  "json_char c =
     (if c = CHR 0x22 then [CHR 0x5C, CHR 0x22]
      else if c = CHR 0x5C then [CHR 0x5C, CHR 0x5C]
      else if c = CHR 0x0A then [CHR 0x5C, CHR ''n'']
      else if c = CHR 0x0D then [CHR 0x5C, CHR ''r'']
      else if c = CHR 0x09 then [CHR 0x5C, CHR ''t'']
      else if c = CHR 0x08 then [CHR 0x5C, CHR ''b'']
      else if c = CHR 0x0C then [CHR 0x5C, CHR ''f'']
      else if 32 \<le> (of_char c :: nat) \<and> (of_char c :: nat) < 127 then [c]
      else [CHR 0x5C, CHR ''u'', CHR ''0'', CHR ''0''] @ hex2 c)"

definition json_str :: "string \<Rightarrow> string" where
  "json_str s = [CHR 0x22] @ concat (map json_char s) @ [CHR 0x22]"

definition newline_indent :: "nat \<Rightarrow> string" where
  "newline_indent lvl = CHR 0x0A # replicate (2 * lvl) CHR '' ''"

fun json_enc :: "nat \<Rightarrow> pyval \<Rightarrow> string raising" where
  "json_enc lvl PNone = Inr ''null''"
| "json_enc lvl (PBool b) = Inr (if b then ''true'' else ''false'')"
| "json_enc lvl (PInt i) = Inr (show_int i)"
| "json_enc lvl (PStr s) = Inr (json_str s)"
| "json_enc lvl (PList xs) =
     (if xs = [] then Inr ''[]''
      else py_bind (sequence (map (json_enc (Suc lvl)) xs))
        (\<lambda>ts. Inr (''['' @ newline_indent (Suc lvl)
                     @ join ('','' @ newline_indent (Suc lvl)) ts
                     @ newline_indent lvl @ '']'')))"
| "json_enc lvl (PDict kvs) =
     (if kvs = [] then Inr ''{}''
      else py_bind
        (sequence (map (\<lambda>kv. py_bind (json_enc (Suc lvl) (snd kv))
                                (\<lambda>t. Inr (json_str (fst kv) @ '': '' @ t))) kvs))
        (\<lambda>ts. Inr (''{'' @ newline_indent (Suc lvl)
                     @ join ('','' @ newline_indent (Suc lvl)) ts
                     @ newline_indent lvl @ ''}'')))"
| "json_enc lvl (PObj tn sf rf t as) =
     Inl (''Object of type '' @ tn @ '' is not JSON serializable'')"

definition json_dumps :: "pyval \<Rightarrow> pyval raising" where
  "json_dumps v = py_bind (json_enc 0 v) (\<lambda>t. Inr (PStr t))"

subsection \<open>Attribute access, iteration, membership\<close>

text \<open>
  \<^verbatim>\<open>getattr(x, name, default)\<close>. An object answers with its attribute. Of the attribute names
  the handlers read, only \<^verbatim>\<open>title\<close> is an attribute of a builtin value: the method
  \<^verbatim>\<open>str.title\<close> (its printed form holds an address, left out here; the handlers never print
  it).
\<close>

definition py_getattr_opt :: "pyval \<Rightarrow> string \<Rightarrow> pyval option" where
  "py_getattr_opt v n =
     (case v of
        PObj tn sf rf t as \<Rightarrow> map_of as n
      | PStr s \<Rightarrow>
          (if n = ''title''
           then Some (PObj ''builtin_function_or_method'' ''<built-in method title of str object>''
                        ''<built-in method title of str object>'' True [])
           else None)
      | _ \<Rightarrow> None)"

definition py_getattr :: "pyval \<Rightarrow> string \<Rightarrow> pyval \<Rightarrow> pyval" where
  "py_getattr v n d = (case py_getattr_opt v n of None \<Rightarrow> d | Some x \<Rightarrow> x)"

definition py_hasattr :: "pyval \<Rightarrow> string \<Rightarrow> bool" where
  "py_hasattr v n = (py_getattr_opt v n \<noteq> None)"

text \<open>\<^verbatim>\<open>for x in v\<close>: the items of a list, the characters of a string, the keys of a dict.\<close>

fun py_iter :: "pyval \<Rightarrow> pyval list raising" where
  "py_iter (PList xs) = Inr xs"
| "py_iter (PStr s) = Inr (map (\<lambda>c. PStr [c]) s)"
| "py_iter (PDict kvs) = Inr (map (\<lambda>kv. PStr (fst kv)) kvs)"
| "py_iter PNone = Inl (quoted ''NoneType'' @ '' object is not iterable'')"
| "py_iter (PBool b) = Inl (quoted ''bool'' @ '' object is not iterable'')"
| "py_iter (PInt i) = Inl (quoted ''int'' @ '' object is not iterable'')"
| "py_iter (PObj tn sf rf t as) = Inl (quoted tn @ '' object is not iterable'')"

fun is_dict :: "pyval \<Rightarrow> bool" where
  "is_dict (PDict kvs) = True"
| "is_dict v = False"

fun is_list :: "pyval \<Rightarrow> bool" where
  "is_list (PList xs) = True"
| "is_list v = False"

fun is_substring :: "string \<Rightarrow> string \<Rightarrow> bool" where
  "is_substring xs [] = (xs = [])"
| "is_substring xs (y # ys) = (prefix xs (y # ys) \<or> is_substring xs ys)"

text \<open>\<^verbatim>\<open>k in v\<close> for a string \<open>k\<close>: a key of a dict, an item of a list, a substring of a string.\<close>

fun py_contains :: "string \<Rightarrow> pyval \<Rightarrow> bool raising" where
  "py_contains k (PDict kvs) = Inr (k \<in> fst ` set kvs)"
| "py_contains k (PList xs) = Inr (PStr k \<in> set xs)"
| "py_contains k (PStr s) = Inr (is_substring k s)"
| "py_contains k PNone = Inl (''argument of type '' @ quoted ''NoneType'' @ '' is not iterable'')"
| "py_contains k (PBool b) = Inl (''argument of type '' @ quoted ''bool'' @ '' is not iterable'')"
| "py_contains k (PInt i) = Inl (''argument of type '' @ quoted ''int'' @ '' is not iterable'')"
| "py_contains k (PObj tn sf rf t as) =
     Inl (''argument of type '' @ quoted tn @ '' is not iterable'')"

text \<open>\<^verbatim>\<open>v[k]\<close> for a string \<open>k\<close>.\<close>

fun py_subscript :: "pyval \<Rightarrow> string \<Rightarrow> pyval raising" where
  "py_subscript (PDict kvs) k =
     (case map_of kvs k of None \<Rightarrow> Inl (repr_str k) | Some v \<Rightarrow> Inr v)"
| "py_subscript (PList xs) k = Inl ''list indices must be integers or slices, not str''"
| "py_subscript (PStr s) k = Inl (''string indices must be integers, not '' @ quoted ''str'')"
| "py_subscript PNone k = Inl (quoted ''NoneType'' @ '' object is not subscriptable'')"
| "py_subscript (PBool b) k = Inl (quoted ''bool'' @ '' object is not subscriptable'')"
| "py_subscript (PInt i) k = Inl (quoted ''int'' @ '' object is not subscriptable'')"
| "py_subscript (PObj tn sf rf t as) k = Inl (quoted tn @ '' object is not subscriptable'')"

section \<open>The competition tools (\<^verbatim>\<open>tools/competitions.py\<close>)\<close>

subsection \<open>Collaborators and state\<close>

text \<open>
  What a handler does to the outside is recorded in a log, in order: the call of the
  authentication gate, each call of a method of the platform client with its arguments,
  the creation of a temporary directory and the removal of a directory tree.
\<close>

datatype event =
    EnsureAuthenticated
  | ApiCall string "pyval list"
  | MkDTemp string
  | RmTree string

text \<open>
  The collaborators of a handler. \<open>client\<close> is the platform client \<^verbatim>\<open>api\<close>: for a method
  name and arguments it returns a value or raises. \<open>tmp_names\<close> are the paths
  \<^verbatim>\<open>tempfile.mkdtemp\<close> tries in turn, \<open>rmtree_ok\<close> tells whether \<^verbatim>\<open>shutil.rmtree\<close> manages to
  remove a tree, \<open>stat_error\<close> is the \<^verbatim>\<open>OSError\<close> that \<^verbatim>\<open>os.path.getsize\<close> or
  \<^verbatim>\<open>os.path.getmtime\<close> raises on a path, if any. The client is not followed into the file
  system: what a download writes below the destination is not part of the state.
  \<open>gate\<close> is what the authentication gate answers.
\<close>

record collaborators =
  gate :: "bool \<times> string"
  client :: "string \<Rightarrow> pyval list \<Rightarrow> pyval raising"
  tmp_names :: "string list"
  rmtree_ok :: "string \<Rightarrow> bool"
  stat_error :: "string \<Rightarrow> string option"

record sys =
  dirs :: "string list"
  files :: "string list"
  log :: "event list"

text \<open>
  Modelled from the spec: \<^verbatim>\<open>ensure_authenticated\<close> of \<^verbatim>\<open>tools/auth.py\<close>, which is not among
  the sources. The spec gives its contract as \<^verbatim>\<open>ensure_authenticated() -> (ok: bool,
  message: string)\<close> and says that it never raises; the pair it returns is the \<open>gate\<close> of the
  collaborators, and the call is recorded.
\<close>

definition ensure_authenticated :: "collaborators \<Rightarrow> sys \<Rightarrow> (bool \<times> string) \<times> sys" where
  "ensure_authenticated env s = (gate env, s\<lparr>log := log s @ [EnsureAuthenticated]\<rparr>)"

definition call_api :: "collaborators \<Rightarrow> string \<Rightarrow> pyval list \<Rightarrow> sys \<Rightarrow> pyval raising \<times> sys" where
  "call_api env name args s = (client env name args, s\<lparr>log := log s @ [ApiCall name args]\<rparr>)"

text \<open>
  \<^verbatim>\<open>tempfile.mkdtemp()\<close> tries candidate names until \<^verbatim>\<open>mkdir\<close> succeeds on one that does not
  exist yet. It raises \<^verbatim>\<open>FileNotFoundError\<close> when there is no usable temporary directory to
  draw names in, and \<^verbatim>\<open>FileExistsError\<close> when it has run out of candidates.
\<close>

definition mkdtemp_name :: "collaborators \<Rightarrow> sys \<Rightarrow> string option" where
  "mkdtemp_name env s = find (\<lambda>n. n \<notin> set (dirs s) \<and> n \<notin> set (files s)) (tmp_names env)"

definition mkdtemp :: "collaborators \<Rightarrow> sys \<Rightarrow> string raising \<times> sys" where
  "mkdtemp env s =
     (case mkdtemp_name env s of
        None \<Rightarrow>
          (Inl (if tmp_names env = [] then ''[Errno 2] No usable temporary directory found''
                else ''[Errno 17] No usable temporary directory name found''), s)
      | Some d \<Rightarrow> (Inr d, s\<lparr>dirs := d # dirs s, log := log s @ [MkDTemp d]\<rparr>))"

text \<open>
  \<^verbatim>\<open>shutil.rmtree(path, ignore_errors=True)\<close> never raises: it removes the directory and
  what lies below it, or gives up silently.
\<close>

definition below :: "string \<Rightarrow> string \<Rightarrow> bool" where
  "below p q = (q = p \<or> prefix (p @ ''/'') q)"

definition rmtree :: "collaborators \<Rightarrow> string \<Rightarrow> sys \<Rightarrow> sys" where
  "rmtree env p s =
     (if rmtree_ok env p
      then s\<lparr>dirs := filter (\<lambda>q. \<not> below p q) (dirs s),
             files := filter (\<lambda>q. \<not> below p q) (files s),
             log := log s @ [RmTree p]\<rparr>
      else s\<lparr>log := log s @ [RmTree p]\<rparr>)"

definition isfile :: "sys \<Rightarrow> string \<Rightarrow> bool" where
  "isfile s p = (p \<in> set (files s))"

text \<open>
  \<^verbatim>\<open>except Exception as e: return f"<prefix>{str(e)}"\<close> around a body that returns a value.
\<close>

definition except_as :: "string \<Rightarrow> pyval raising \<Rightarrow> pyval" where
  "except_as pre r = (case r of Inl e \<Rightarrow> PStr (pre @ e) | Inr v \<Rightarrow> v)"

text \<open>\<^verbatim>\<open>str(v) if v else None\<close>\<close>

definition stringify :: "pyval \<Rightarrow> pyval" where
  "stringify v = (if py_truthy v then PStr (py_str v) else PNone)"

subsection \<open>The projections\<close>

definition competition_fields :: "string list" where
  "competition_fields =
     [''ref'', ''title'', ''url'', ''category'', ''deadline'', ''reward'', ''teamCount'',
      ''userHasEntered'', ''description'']"

definition competition_entry :: "pyval \<Rightarrow> pyval" where
  "competition_entry comp_obj =
     (let deadline_val = py_getattr comp_obj ''deadline'' PNone
      in PDict
        [(''ref'', py_getattr comp_obj ''ref'' PNone),
         (''title'', py_getattr comp_obj ''title'' PNone),
         (''url'', py_getattr comp_obj ''url'' PNone),
         (''category'', py_getattr comp_obj ''category'' PNone),
         (''deadline'', stringify deadline_val),
         (''reward'', py_getattr comp_obj ''reward'' PNone),
         (''teamCount'', py_getattr comp_obj ''teamCount'' PNone),
         (''userHasEntered'', py_getattr comp_obj ''userHasEntered'' PNone),
         (''description'', py_getattr comp_obj ''description'' PNone)])"

definition competition_detail :: "pyval \<Rightarrow> pyval" where
  "competition_detail comp_obj =
     (let deadline_val = py_getattr comp_obj ''deadline'' PNone
      in PDict
        [(''ref'', py_getattr comp_obj ''ref'' PNone),
         (''title'', py_getattr comp_obj ''title'' PNone),
         (''url'', py_getattr comp_obj ''url'' PNone),
         (''category'', py_getattr comp_obj ''category'' PNone),
         (''deadline'', stringify deadline_val),
         (''reward'', py_getattr comp_obj ''reward'' PNone),
         (''teamCount'', py_getattr comp_obj ''teamCount'' PNone),
         (''userHasEntered'', py_getattr comp_obj ''userHasEntered'' PNone),
         (''description'', py_getattr comp_obj ''description'' PNone),
         (''evaluationMetric'', py_getattr comp_obj ''evaluationMetric'' PNone),
         (''isKernelsSubmissionsOnly'', py_getattr comp_obj ''isKernelsSubmissionsOnly'' PNone),
         (''tags'', py_getattr comp_obj ''tags'' (PList []))])"

definition file_entry :: "pyval \<Rightarrow> pyval" where
  "file_entry file_obj =
     (let creation_date_val = py_getattr file_obj ''creationDate'' PNone
      in PDict
        [(''name'', py_getattr file_obj ''name'' PNone),
         (''size'', py_getattr file_obj ''size'' PNone),
         (''creationDate'', stringify creation_date_val)])"

definition submission_entry :: "pyval \<Rightarrow> pyval" where
  "submission_entry sub =
     (let date_val = py_getattr sub ''date'' PNone
      in PDict
        [(''ref'', py_getattr sub ''ref'' PNone),
         (''fileName'', py_getattr sub ''fileName'' PNone),
         (''date'', stringify date_val),
         (''description'', py_getattr sub ''description'' PNone),
         (''status'', py_getattr sub ''status'' PNone),
         (''publicScore'', py_getattr sub ''publicScore'' PNone),
         (''privateScore'', py_getattr sub ''privateScore'' PNone)])"

definition leaderboard_entry :: "pyval \<Rightarrow> pyval" where
  "leaderboard_entry entry =
     (let submission_date_val = py_getattr entry ''submissionDate'' PNone
      in PDict
        [(''teamId'', py_getattr entry ''teamId'' PNone),
         (''teamName'', py_getattr entry ''teamName'' PNone),
         (''submissionDate'', stringify submission_date_val),
         (''score'', py_getattr entry ''score'' PNone),
         (''rank'', py_getattr entry ''rank'' PNone)])"

text \<open>
  The loop \<^verbatim>\<open>result = []; for x in xs: result.append(entry(x))\<close> followed by
  \<^verbatim>\<open>json.dumps(result, indent=2)\<close>.
\<close>

definition project_all :: "(pyval \<Rightarrow> pyval) \<Rightarrow> pyval \<Rightarrow> pyval list raising" where
  "project_all entry xs = py_bind (py_iter xs) (\<lambda>items. Inr (map entry items))"

definition dump_projected :: "(pyval \<Rightarrow> pyval) \<Rightarrow> pyval \<Rightarrow> pyval raising" where
  "dump_projected entry xs = py_bind (project_all entry xs) (\<lambda>result. json_dumps (PList result))"

subsection \<open>The handlers\<close>

text \<open>
  A handler takes the collaborators, its arguments and the state, and gives back what it
  returns (\<open>Inr\<close>) or the exception that leaves it (\<open>Inl\<close>), with the state it leaves behind.
\<close>

definition competitions_list ::
  "collaborators \<Rightarrow> string \<Rightarrow> string \<Rightarrow> string \<Rightarrow> string \<Rightarrow> int \<Rightarrow> sys \<Rightarrow> pyval raising \<times> sys" where
  "competitions_list env search category group_name sort_by page s =
     (let (auth, s1) = ensure_authenticated env s
      in if \<not> fst auth then (Inr (PStr (snd auth)), s1)
         else
           let (competitions, s2) =
                 call_api env ''competitions_list''
                   [PStr search, PStr category, PStr group_name, PStr sort_by, PInt page] s1
           in (Inr (except_as ''Error listing competitions: ''
                      (py_bind competitions (dump_projected competition_entry))), s2))"

definition competition_details :: "collaborators \<Rightarrow> string \<Rightarrow> sys \<Rightarrow> pyval raising \<times> sys" where
  "competition_details env competition s =
     (let (auth, s1) = ensure_authenticated env s
      in if \<not> fst auth then (Inr (PStr (snd auth)), s1)
         else
           let (got, s2) = call_api env ''competition_get'' [PStr competition] s1
           in (Inr (except_as ''Error getting competition details: ''
                      (py_bind got (\<lambda>comp_obj. json_dumps (competition_detail comp_obj)))), s2))"

text \<open>
  Lines 123 to 127 of the download handler, which stand before its \<^verbatim>\<open>try\<close>: the destination
  and whether it is a temporary directory of the handler's own.
\<close>

definition destination :: "collaborators \<Rightarrow> string \<Rightarrow> sys \<Rightarrow> (string \<times> bool) raising \<times> sys" where
  "destination env path s =
     (if path = [] then
        (let (made, s') = mkdtemp env s
         in (py_bind made (\<lambda>d. Inr (d, True)), s'))
      else (Inr (path, False), s))"

definition download_request :: "string \<Rightarrow> string \<Rightarrow> string \<Rightarrow> bool \<Rightarrow> string \<times> pyval list" where
  "download_request competition path file_name force =
     (if file_name \<noteq> [] then
        (''competition_download_file'', [PStr competition, PStr file_name, PStr path, PBool force])
      else (''competition_download_files'', [PStr competition, PStr path, PBool force]))"

definition download_message :: "string \<Rightarrow> string \<Rightarrow> string" where
  "download_message path file_name =
     (if file_name \<noteq> [] then ''Downloaded file '' @ quoted file_name @ '' to '' @ path
      else ''Downloaded all competition files to '' @ path)"

text \<open>The \<^verbatim>\<open>try\<close> of the download handler with its \<^verbatim>\<open>except\<close>, lines 129 to 148.\<close>

definition download_try ::
  "collaborators \<Rightarrow> string \<Rightarrow> string \<Rightarrow> string \<Rightarrow> bool \<Rightarrow> bool \<Rightarrow> sys \<Rightarrow> pyval raising \<times> sys" where
  "download_try env competition path file_name force use_temp s =
     (let (name, args) = download_request competition path file_name force;
          (downloaded, s') = call_api env name args s
      in (case downloaded of
            Inr v \<Rightarrow> (Inr (PStr (download_message path file_name)), s')
          | Inl e \<Rightarrow>
              (Inr (PStr (''Error downloading competition files: '' @ e)),
               if use_temp then rmtree env path s' else s')))"

definition competition_download_files ::
  "collaborators \<Rightarrow> string \<Rightarrow> string \<Rightarrow> string \<Rightarrow> bool \<Rightarrow> sys \<Rightarrow> pyval raising \<times> sys" where
  "competition_download_files env competition path file_name force s =
     (let (auth, s1) = ensure_authenticated env s
      in if \<not> fst auth then (Inr (PStr (snd auth)), s1)
         else
           let (dest, s2) = destination env path s1
           in (case dest of
                 Inl e \<Rightarrow> (Inl e, s2)
               | Inr (path', use_temp) \<Rightarrow>
                   download_try env competition path' file_name force use_temp s2))"

definition competition_list_files :: "collaborators \<Rightarrow> string \<Rightarrow> sys \<Rightarrow> pyval raising \<times> sys" where
  "competition_list_files env competition s =
     (let (auth, s1) = ensure_authenticated env s
      in if \<not> fst auth then (Inr (PStr (snd auth)), s1)
         else
           let (files_val, s2) = call_api env ''competition_list_files'' [PStr competition] s1
           in (Inr (except_as ''Error listing competition files: ''
                      (py_bind files_val (dump_projected file_entry))), s2))"

definition competition_submissions :: "collaborators \<Rightarrow> string \<Rightarrow> sys \<Rightarrow> pyval raising \<times> sys" where
  "competition_submissions env competition s =
     (let (auth, s1) = ensure_authenticated env s
      in if \<not> fst auth then (Inr (PStr (snd auth)), s1)
         else
           let (submissions, s2) = call_api env ''competition_submissions'' [PStr competition] s1
           in (Inr (except_as ''Error listing submissions: ''
                      (py_bind submissions (dump_projected submission_entry))), s2))"

text \<open>
  The body of the leaderboard handler after the call of the client. The source tests
  \<^verbatim>\<open>isinstance(leaderboard, dict) and 'submissions' in leaderboard\<close> first and has its
  three-way test on list, dict and anything else inside that branch; whatever fails the
  first test is passed to \<^verbatim>\<open>json.dumps\<close>.
\<close>

definition leaderboard_body :: "pyval \<Rightarrow> pyval raising" where
  "leaderboard_body leaderboard =
     (if is_dict leaderboard \<and> py_contains ''submissions'' leaderboard = Inr True then
        (if is_list leaderboard then dump_projected leaderboard_entry leaderboard
         else if is_dict leaderboard then json_dumps leaderboard
         else Inr (PStr (py_str leaderboard)))
      else json_dumps leaderboard)"

definition competition_leaderboard :: "collaborators \<Rightarrow> string \<Rightarrow> sys \<Rightarrow> pyval raising \<times> sys" where
  "competition_leaderboard env competition s =
     (let (auth, s1) = ensure_authenticated env s
      in if \<not> fst auth then (Inr (PStr (snd auth)), s1)
         else
           let (view, s2) = call_api env ''competition_leaderboard_view'' [PStr competition] s1
           in (Inr (except_as ''Error retrieving leaderboard: ''
                      (py_bind view leaderboard_body)), s2))"

text \<open>
  What the submission handler returns for the response of the client: its \<^verbatim>\<open>message\<close>
  attribute itself when it has one that is true, else a sentence with its \<^verbatim>\<open>status\<close>, else
  a fixed sentence.
\<close>

definition submit_status :: "pyval \<Rightarrow> pyval" where
  "submit_status response =
     (if py_hasattr response ''message'' \<and> py_truthy (py_getattr response ''message'' PNone)
      then py_getattr response ''message'' PNone
      else if py_hasattr response ''status'' \<and> py_truthy (py_getattr response ''status'' PNone)
      then PStr (''Submission status: '' @ py_str (py_getattr response ''status'' PNone))
      else PStr ''Submission successful.'')"

definition competition_submit ::
  "collaborators \<Rightarrow> string \<Rightarrow> string \<Rightarrow> string \<Rightarrow> sys \<Rightarrow> pyval raising \<times> sys" where
  "competition_submit env competition file_path message s =
     (let (auth, s1) = ensure_authenticated env s
      in if \<not> fst auth then (Inr (PStr (snd auth)), s1)
         else if \<not> isfile s1 file_path
         then (Inr (PStr (''Error: File not found at '' @ file_path)), s1)
         else
           (case stat_error env file_path of
              Some e \<Rightarrow> (Inr (PStr (''Error submitting to competition: '' @ e)), s1)
            | None \<Rightarrow>
                let (response, s2) =
                      call_api env ''competition_submit''
                        [PStr file_path, PStr message, PStr competition] s1
                in (Inr (except_as ''Error submitting to competition: ''
                           (py_bind response (\<lambda>r. Inr (submit_status r)))), s2)))"

section \<open>The credential resolver (\<^verbatim>\<open>load_kaggle_config\<close> of \<^verbatim>\<open>server.py\<close>)\<close>

text \<open>
  The resolver reads and writes the process environment and looks at two files. For a
  candidate path, \<^verbatim>\<open>location.exists()\<close> answers that nothing is there (\<open>Absent\<close>) or raises
  (\<open>Denied\<close>, a \<^verbatim>\<open>PermissionError\<close> on a directory that may not be searched), or the file
  is there: then \<^verbatim>\<open>open\<close> or \<^verbatim>\<open>json.load\<close> raises on it (\<open>Broken\<close>), or its content parses
  to a JSON value (\<open>Content\<close>). The trace records, in order, each \<^verbatim>\<open>exists\<close> test, each
  \<^verbatim>\<open>open\<close> and each line of the logger. The home directory is given.
\<close>

datatype cred_file = Absent | Denied string | Broken string | Content pyval

datatype touch = Exists string | Open string | LogInfo string | LogWarning string

record resolver =
  environ :: "string \<Rightarrow> string option"
  trace :: "touch list"

definition kaggle_locations :: "string \<Rightarrow> string list" where
  "kaggle_locations home = [home @ ''/.kaggle/kaggle.json'', home @ ''/.config/kaggle/kaggle.json'']"

text \<open>\<^verbatim>\<open>not os.environ.get(name)\<close>: the variable is unset or empty.\<close>

definition env_missing :: "resolver \<Rightarrow> string \<Rightarrow> bool" where
  "env_missing st name = (case environ st name of None \<Rightarrow> True | Some v \<Rightarrow> v = [])"

text \<open>\<^verbatim>\<open>type(v).__name__\<close>\<close>

fun py_type_name :: "pyval \<Rightarrow> string" where
  "py_type_name PNone = ''NoneType''"
| "py_type_name (PBool b) = ''bool''"
| "py_type_name (PInt i) = ''int''"
| "py_type_name (PStr s) = ''str''"
| "py_type_name (PList xs) = ''list''"
| "py_type_name (PDict kvs) = ''dict''"
| "py_type_name (PObj tn sf rf t as) = tn"

text \<open>
  \<^verbatim>\<open>os.environ[name] = v\<close> raises \<^verbatim>\<open>TypeError\<close> unless \<open>v\<close> is a string, and \<^verbatim>\<open>ValueError\<close>
  for a string that holds a NUL character.
\<close>

definition setenv :: "string \<Rightarrow> pyval \<Rightarrow> resolver \<Rightarrow> unit raising \<times> resolver" where
  "setenv name v st =
     (case v of
        PStr x \<Rightarrow>
          (if CHR 0x00 \<in> set x then (Inl ''embedded null byte'', st)
           else (Inr (), st\<lparr>environ := (environ st)(name \<mapsto> x)\<rparr>))
      | _ \<Rightarrow> (Inl (''str expected, not '' @ py_type_name v), st))"

text \<open>
  The body of the \<^verbatim>\<open>try\<close> for one existing location: \<open>Inr True\<close> when it reached \<^verbatim>\<open>break\<close>,
  \<open>Inr False\<close> when it ended without, \<open>Inl\<close> when it raised.
\<close>

definition try_location :: "(string \<Rightarrow> cred_file) \<Rightarrow> string \<Rightarrow> resolver \<Rightarrow> bool raising \<times> resolver" where
  "try_location fs location st =
     (let st1 = st\<lparr>trace := trace st @ [Open location]\<rparr>
      in case fs location of
           Absent \<Rightarrow> (Inl ''[Errno 2] No such file or directory'', st1)
         | Denied e \<Rightarrow> (Inl e, st1)
         | Broken e \<Rightarrow> (Inl e, st1)
         | Content credentials \<Rightarrow>
             (case py_bind (py_contains ''username'' credentials)
                     (\<lambda>u. if u then py_contains ''key'' credentials else Inr False) of
                Inl e \<Rightarrow> (Inl e, st1)
              | Inr False \<Rightarrow> (Inr False, st1)
              | Inr True \<Rightarrow>
                  (case py_subscript credentials ''username'' of
                     Inl e \<Rightarrow> (Inl e, st1)
                   | Inr u \<Rightarrow>
                       (case setenv ''KAGGLE_USERNAME'' u st1 of
                          (Inl e, st2) \<Rightarrow> (Inl e, st2)
                        | (Inr x, st2) \<Rightarrow>
                            (case py_subscript credentials ''key'' of
                               Inl e \<Rightarrow> (Inl e, st2)
                             | Inr k \<Rightarrow>
                                 (case setenv ''KAGGLE_KEY'' k st2 of
                                    (Inl e, st3) \<Rightarrow> (Inl e, st3)
                                  | (Inr y, st3) \<Rightarrow>
                                      (Inr True,
                                       st3\<lparr>trace := trace st3 @
                                         [LogInfo (''Loaded Kaggle credentials from '' @ location)]\<rparr>)))))))"

text \<open>
  The \<^verbatim>\<open>except\<close> of one location: the warning is logged and the loop goes on.
\<close>

definition warn_failed :: "string \<Rightarrow> string \<Rightarrow> resolver \<Rightarrow> resolver" where
  "warn_failed location e st =
     st\<lparr>trace := trace st @
       [LogWarning (''Failed to load credentials from '' @ location @ '': '' @ e)]\<rparr>"

text \<open>
  The loop over the locations. The test \<^verbatim>\<open>location.exists()\<close> of line 80 stands before the
  \<^verbatim>\<open>try\<close> of line 81: when it raises, the exception leaves the loop and the resolver.
\<close>

fun scan :: "(string \<Rightarrow> cred_file) \<Rightarrow> string list \<Rightarrow> resolver \<Rightarrow> unit raising \<times> resolver" where
  "scan fs [] st = (Inr (), st)"
| "scan fs (location # rest) st =
     (let st1 = st\<lparr>trace := trace st @ [Exists location]\<rparr>
      in case fs location of
           Denied e \<Rightarrow> (Inl e, st1)
         | Absent \<Rightarrow> scan fs rest st1
         | present \<Rightarrow>
             (case try_location fs location st1 of
                (Inl e, st2) \<Rightarrow> scan fs rest (warn_failed location e st2)
              | (Inr True, st2) \<Rightarrow> (Inr (), st2)
              | (Inr False, st2) \<Rightarrow> scan fs rest st2))"

definition load_kaggle_config ::
  "string \<Rightarrow> (string \<Rightarrow> cred_file) \<Rightarrow> resolver \<Rightarrow> unit raising \<times> resolver" where
  "load_kaggle_config home fs st =
     (if env_missing st ''KAGGLE_USERNAME'' \<or> env_missing st ''KAGGLE_KEY''
      then scan fs (kaggle_locations home) st
      else (Inr (), st))"

section \<open>Observations on outcomes\<close>

text \<open>The events a handler added to the log, and the calls of the client among them.\<close>

definition new_events :: "sys \<Rightarrow> sys \<Rightarrow> event list" where
  "new_events s s' = drop (length (log s)) (log s')"

fun is_api_call :: "event \<Rightarrow> bool" where
  "is_api_call (ApiCall name args) = True"
| "is_api_call ev = False"

fun is_rmtree :: "event \<Rightarrow> bool" where
  "is_rmtree (RmTree p) = True"
| "is_rmtree ev = False"

text \<open>The handler returned, and what it returned is a string.\<close>

fun returns_text :: "pyval raising \<times> sys \<Rightarrow> bool" where
  "returns_text (Inr (PStr t), s) = True"
| "returns_text out = False"

fun returns_value :: "pyval raising \<times> sys \<Rightarrow> bool" where
  "returns_value (Inr v, s) = True"
| "returns_value out = False"

fun is_str :: "pyval \<Rightarrow> bool" where
  "is_str (PStr t) = True"
| "is_str v = False"

text \<open>
  A handler is gated when the first thing it does is to call the gate and when, the gate
  refusing, it returns the gate's message and has done nothing else.
\<close>

definition gated :: "collaborators \<Rightarrow> sys \<Rightarrow> pyval raising \<times> sys \<Rightarrow> bool" where
  "gated env s out =
     (take 1 (new_events s (snd out)) = [EnsureAuthenticated] \<and>
      take (length (log s)) (log (snd out)) = log s \<and>
      (\<not> fst (gate env) \<longrightarrow>
         out = (Inr (PStr (snd (gate env))), s\<lparr>log := log s @ [EnsureAuthenticated]\<rparr>)))"

fun items_of :: "pyval \<Rightarrow> (string \<times> pyval) list" where
  "items_of (PDict kvs) = kvs"
| "items_of v = []"

definition keys_of :: "pyval \<Rightarrow> string list" where
  "keys_of v = map fst (items_of v)"

definition field_of :: "pyval \<Rightarrow> string \<Rightarrow> pyval option" where
  "field_of v k = map_of (items_of v) k"




text \<open>What the client answers to the call a download makes, and the record of that call.\<close>

definition download_outcome :: "collaborators \<Rightarrow> string \<Rightarrow> string \<Rightarrow> string \<Rightarrow> bool \<Rightarrow> pyval raising" where
  "download_outcome env competition path file_name force =
     (case download_request competition path file_name force of (name, args) \<Rightarrow> client env name args)"

definition download_event :: "string \<Rightarrow> string \<Rightarrow> string \<Rightarrow> bool \<Rightarrow> event" where
  "download_event competition path file_name force =
     (case download_request competition path file_name force of (name, args) \<Rightarrow> ApiCall name args)"

text \<open>A value that \<^verbatim>\<open>json.dumps\<close> can serialize: no object of a foreign class inside.\<close>

fun jsonable :: "pyval \<Rightarrow> bool" where
  "jsonable (PList xs) = (\<forall>x \<in> set xs. jsonable x)"
| "jsonable (PDict kvs) = (\<forall>kv \<in> set kvs. jsonable (snd kv))"
| "jsonable (PObj tn sf rf t as) = False"
| "jsonable v = True"

text \<open>
  The rendering of a date field in the words of the amended claim: null for a field that is
  absent or false, the string form of the value otherwise.
\<close>

definition date_rendering :: "pyval option \<Rightarrow> pyval" where
  "date_rendering a =
     (case a of None \<Rightarrow> PNone | Some v \<Rightarrow> if py_truthy v then PStr (py_str v) else PNone)"

section \<open>Fixtures\<close>

text \<open>Concrete collaborators and states on which the theorems below are instantiated.\<close>

definition sys0 :: sys where
  "sys0 = \<lparr>dirs = [], files = [], log = []\<rparr>"

definition refusing :: collaborators where
  "refusing =
     \<lparr>gate = (False, ''Kaggle API is not authenticated''),
      client = (\<lambda>name args. Inr PNone),
      tmp_names = [''/tmp/tmpa1''],
      rmtree_ok = (\<lambda>p. True),
      stat_error = (\<lambda>p. None)\<rparr>"

definition failing_client :: collaborators where
  "failing_client =
     \<lparr>gate = (True, ''''),
      client = (\<lambda>name args. Inl ''503 Service Unavailable''),
      tmp_names = [''/tmp/tmpa1''],
      rmtree_ok = (\<lambda>p. True),
      stat_error = (\<lambda>p. None)\<rparr>"

definition serving :: collaborators where
  "serving =
     \<lparr>gate = (True, ''''),
      client = (\<lambda>name args. Inr PNone),
      tmp_names = [''/tmp/tmpa1'', ''/tmp/tmpb2''],
      rmtree_ok = (\<lambda>p. True),
      stat_error = (\<lambda>p. None)\<rparr>"

definition sys1 :: sys where
  "sys1 = \<lparr>dirs = [''/tmp/tmpa1'', ''/data''], files = [''/data/sub.csv''], log = []\<rparr>"

definition answering :: "pyval \<Rightarrow> collaborators" where
  "answering v =
     \<lparr>gate = (True, ''''),
      client = (\<lambda>name args. Inr v),
      tmp_names = [''/tmp/tmpa1''],
      rmtree_ok = (\<lambda>p. True),
      stat_error = (\<lambda>p. None)\<rparr>"

definition board_object :: pyval where
  "board_object =
     PObj ''LeaderboardEntry'' ''entry'' ''<LeaderboardEntry>'' True
       [(''teamId'', PInt 7), (''teamName'', PStr ''a'')]"

definition board_record :: pyval where
  "board_record = PDict [(''teamId'', PInt 7), (''teamName'', PStr ''a'')]"

definition good_file :: cred_file where
  "good_file = Content (PDict [(''username'', PStr ''alice''), (''key'', PStr ''s3cret'')])"

definition only_first :: "string \<Rightarrow> cred_file" where
  "only_first p = (if p = ''/root/.kaggle/kaggle.json'' then good_file else Absent)"


definition empty_username :: resolver where
  "empty_username =
     \<lparr>environ = [''KAGGLE_USERNAME'' \<mapsto> '''', ''KAGGLE_KEY'' \<mapsto> ''k0''], trace = []\<rparr>"

definition both_set :: resolver where
  "both_set =
     \<lparr>environ = [''KAGGLE_USERNAME'' \<mapsto> ''bob'', ''KAGGLE_KEY'' \<mapsto> ''k0''], trace = []\<rparr>"



definition epoch_competition :: pyval where
  "epoch_competition =
     PObj ''Competition'' ''titanic'' ''<Competition>'' True
       [(''ref'', PStr ''titanic''), (''deadline'', PInt 0)]"

definition dated_competition :: pyval where
  "dated_competition =
     PObj ''Competition'' ''titanic'' ''<Competition>'' True
       [(''ref'', PStr ''titanic''),
        (''deadline'', PObj ''datetime'' ''2030-01-01 00:00:00'' ''datetime.datetime(2030, 1, 1, 0, 0)'' True [])]"

definition undated_file :: pyval where
  "undated_file = PObj ''File'' ''train.csv'' ''<File>'' True [(''name'', PStr ''train.csv'')]"

definition three_competitions :: "pyval list" where
  "three_competitions =
     [PObj ''Competition'' ''titanic'' ''<Competition>'' True
        [(''ref'', PStr ''titanic''), (''title'', PStr ''Titanic''), (''reward'', PStr ''Knowledge''),
         (''teamCount'', PInt 15000)],
      PObj ''Competition'' ''digits'' ''<Competition>'' True
        [(''ref'', PStr ''digits''), (''title'', PStr ''Digit Recognizer''), (''teamCount'', PInt 900)],
      PObj ''Competition'' ''houses'' ''<Competition>'' True
        [(''ref'', PStr ''houses''), (''title'', PStr ''House Prices''), (''reward'', PStr ''$100''),
         (''userHasEntered'', PBool False)]]"

definition no_tmp :: collaborators where
  "no_tmp =
     \<lparr>gate = (True, ''''),
      client = (\<lambda>name args. Inr PNone),
      tmp_names = [],
      rmtree_ok = (\<lambda>p. True),
      stat_error = (\<lambda>p. None)\<rparr>"






definition dated_board :: pyval where
  "dated_board = PList [PDict [(''submissionDate'', PInt 5)]]"

section \<open>The authentication gate comes first\<close>

lemma gated_competitions_list: "gated env s (competitions_list env a b c d e s)"
  by (cases "fst (gate env)")
     (auto simp: competitions_list_def ensure_authenticated_def call_api_def gated_def new_events_def)

lemma gated_competition_details: "gated env s (competition_details env c s)"
  by (cases "fst (gate env)")
     (auto simp: competition_details_def ensure_authenticated_def call_api_def gated_def new_events_def)

lemma gated_passed:
  "fst (gate env) \<Longrightarrow> log s' = log s @ EnsureAuthenticated # rest \<Longrightarrow> gated env s (r, s')"
  by (simp add: gated_def new_events_def)

lemma destination_log: "\<exists>rest. log (snd (destination env path s)) = log s @ rest"
  by (simp add: destination_def mkdtemp_def py_bind_def split_def split: option.splits)

lemma download_try_log:
  "\<exists>rest. log (snd (download_try env competition path file_name force use_temp s)) = log s @ rest"
  by (simp add: download_try_def call_api_def rmtree_def split_def Let_def split: sum.splits)

lemma gated_competition_download_files: "gated env s (competition_download_files env c p f force s)"
proof (cases "fst (gate env)")
  case False
  then show ?thesis
    by (simp add: competition_download_files_def ensure_authenticated_def gated_def new_events_def)
next
  case True
  let ?s1 = "s\<lparr>log := log s @ [EnsureAuthenticated]\<rparr>"
  obtain dest s2 where d: "destination env p ?s1 = (dest, s2)"
    by (cases "destination env p ?s1")
  with destination_log [of env p ?s1] obtain rest where l: "log s2 = log s @ EnsureAuthenticated # rest"
    by auto
  show ?thesis
  proof (cases dest)
    case (Inl e)
    with True d have "competition_download_files env c p f force s = (Inl e, s2)"
      by (simp add: competition_download_files_def ensure_authenticated_def)
    with True l show ?thesis
      by (simp only: gated_passed)
  next
    case (Inr pu)
    obtain p' u where pu: "pu = (p', u)" by (cases pu)
    obtain r s' where t: "download_try env c p' f force u s2 = (r, s')"
      by (cases "download_try env c p' f force u s2")
    with download_try_log [of env c p' f force u s2] l
    obtain more where "log s' = log s @ EnsureAuthenticated # (rest @ more)"
      by auto
    moreover from True d Inr pu t have "competition_download_files env c p f force s = (r, s')"
      by (simp add: competition_download_files_def ensure_authenticated_def)
    ultimately show ?thesis
      using True by (simp only: gated_passed)
  qed
qed

lemma gated_competition_list_files: "gated env s (competition_list_files env c s)"
  by (cases "fst (gate env)")
     (auto simp: competition_list_files_def ensure_authenticated_def call_api_def gated_def new_events_def)

lemma gated_competition_submissions: "gated env s (competition_submissions env c s)"
  by (cases "fst (gate env)")
     (auto simp: competition_submissions_def ensure_authenticated_def call_api_def gated_def new_events_def)

lemma gated_competition_leaderboard: "gated env s (competition_leaderboard env c s)"
  by (cases "fst (gate env)")
     (auto simp: competition_leaderboard_def ensure_authenticated_def call_api_def gated_def new_events_def)

lemma gated_competition_submit: "gated env s (competition_submit env c p m s)"
  by (cases "fst (gate env)")
     (auto simp: competition_submit_def ensure_authenticated_def call_api_def gated_def new_events_def
        split: prod.splits sum.splits option.splits)

text \<open>
  C3. Each of the seven handlers calls the authentication gate before it does anything
  else: the first event it adds to the log is the call of the gate. When the gate answers
  \<open>(False, message)\<close>, the handler returns that message as its whole output and leaves the
  state as it was but for the record of the gate's call: no call of the client, no
  directory made or removed.
\<close>

theorem gate_refusal_is_whole_output:
  "gated env s (competitions_list env search category group_name sort_by page s) \<and>
   gated env s (competition_details env competition s) \<and>
   gated env s (competition_download_files env competition path file_name force s) \<and>
   gated env s (competition_list_files env competition s) \<and>
   gated env s (competition_submissions env competition s) \<and>
   gated env s (competition_leaderboard env competition s) \<and>
   gated env s (competition_submit env competition file_path message s)"
  by (intro conjI gated_competitions_list gated_competition_details
        gated_competition_download_files gated_competition_list_files
        gated_competition_submissions gated_competition_leaderboard gated_competition_submit)

theorem gate_refusal_is_whole_output_witness:
  "competition_download_files refusing ''titanic'' '''' '''' False sys0 =
     (Inr (PStr ''Kaggle API is not authenticated''),
      \<lparr>dirs = [], files = [], log = [EnsureAuthenticated]\<rparr>) \<and>
   competition_submit refusing ''titanic'' ''sub.csv'' ''first try'' sys0 =
     (Inr (PStr ''Kaggle API is not authenticated''),
      \<lparr>dirs = [], files = [], log = [EnsureAuthenticated]\<rparr>)"
proof -
  have refused: "\<not> fst (gate refusing)" "snd (gate refusing) = ''Kaggle API is not authenticated''"
    by (simp_all add: refusing_def)
  from gate_refusal_is_whole_output [of refusing sys0 _ _ _ _ _ "''titanic''" "''''" "''''" False
      "''sub.csv''" "''first try''"]
  have "gated refusing sys0 (competition_download_files refusing ''titanic'' '''' '''' False sys0)"
    and "gated refusing sys0 (competition_submit refusing ''titanic'' ''sub.csv'' ''first try'' sys0)"
    by blast+
  with refused show ?thesis
    by (simp add: gated_def sys0_def)
qed

section \<open>Submission of a file that is not there\<close>

text \<open>
  C5. With the gate passed and no regular file at \<open>file_path\<close>, the submission handler
  returns exactly \<^verbatim>\<open>Error: File not found at <file_path>\<close>, and the only event it adds to the
  log is the call of the gate: the client is not called.
\<close>

theorem submit_missing_file:
  assumes "fst (gate env)" and "\<not> isfile s file_path"
  shows "competition_submit env competition file_path message s =
           (Inr (PStr (''Error: File not found at '' @ file_path)),
            s\<lparr>log := log s @ [EnsureAuthenticated]\<rparr>) \<and>
         filter is_api_call (new_events s (snd (competition_submit env competition file_path message s))) = []"
  using assms
  by (simp add: competition_submit_def ensure_authenticated_def isfile_def new_events_def)

theorem submit_missing_file_witness:
  "fst (competition_submit failing_client ''titanic'' ''/data/sub.csv'' ''first try'' sys0) =
     Inr (PStr ''Error: File not found at /data/sub.csv'') \<and>
   log (snd (competition_submit failing_client ''titanic'' ''/data/sub.csv'' ''first try'' sys0)) =
     [EnsureAuthenticated]"
proof -
  have "fst (gate failing_client)" and "\<not> isfile sys0 ''/data/sub.csv''"
    by (simp_all add: failing_client_def sys0_def isfile_def)
  from submit_missing_file [OF this, of "''titanic''" "''first try''"]
  show ?thesis by (simp add: sys0_def)
qed

section \<open>The temporary directory of a download\<close>

lemma download_temp_success:
  assumes "fst (gate env)" "mkdtemp_name env s = Some d"
    "download_outcome env competition d file_name force = Inr v"
  shows "competition_download_files env competition [] file_name force s =
     (Inr (PStr (download_message d file_name)),
      s\<lparr>dirs := d # dirs s,
        log := log s @ [EnsureAuthenticated, MkDTemp d, download_event competition d file_name force]\<rparr>)"
  using assms
  by (auto simp: competition_download_files_def download_try_def ensure_authenticated_def
      destination_def mkdtemp_def mkdtemp_name_def py_bind_def call_api_def download_outcome_def
      download_event_def split: prod.splits)

lemma download_temp_failure:
  assumes "fst (gate env)" "mkdtemp_name env s = Some d"
    "download_outcome env competition d file_name force = Inl e"
  shows "competition_download_files env competition [] file_name force s =
     (Inr (PStr (''Error downloading competition files: '' @ e)),
      rmtree env d (s\<lparr>dirs := d # dirs s,
        log := log s @ [EnsureAuthenticated, MkDTemp d, download_event competition d file_name force]\<rparr>))"
  using assms
  by (auto simp: competition_download_files_def download_try_def ensure_authenticated_def
      destination_def mkdtemp_def mkdtemp_name_def py_bind_def call_api_def download_outcome_def
      download_event_def split: prod.splits)

lemma download_given_failure:
  assumes "fst (gate env)" "path \<noteq> []"
    "download_outcome env competition path file_name force = Inl e"
  shows "competition_download_files env competition path file_name force s =
     (Inr (PStr (''Error downloading competition files: '' @ e)),
      s\<lparr>log := log s @ [EnsureAuthenticated, download_event competition path file_name force]\<rparr>)"
  using assms
  by (auto simp: competition_download_files_def download_try_def ensure_authenticated_def
      destination_def call_api_def download_outcome_def download_event_def
      split: prod.splits)

lemma mkdtemp_name_fresh:
  "mkdtemp_name env s = Some d \<Longrightarrow> d \<notin> set (dirs s) \<and> d \<notin> set (files s) \<and> d \<in> set (tmp_names env)"
  by (auto simp: mkdtemp_name_def find_Some_iff)

lemma suffix_download_message: "suffix d (download_message d file_name)"
  by (simp add: download_message_def suffix_def)

lemma is_rmtree_download_event: "\<not> is_rmtree (download_event c p f force)"
  by (simp add: download_event_def download_request_def)

text \<open>
  C4. The download handler, the gate passed. Called without a destination path, with
  \<^verbatim>\<open>tempfile.mkdtemp\<close> delivering \<open>d\<close>: \<open>d\<close> did not exist before and is a directory
  afterwards, and when the client returns, the message returned ends with \<open>d\<close>; when the
  client raises, the handler calls \<^verbatim>\<open>shutil.rmtree\<close> on \<open>d\<close> (which never raises: \<open>d\<close> is gone
  when the removal works, and is left when it does not) and returns
  \<^verbatim>\<open>Error downloading competition files: <exception>\<close>. Called with a destination path and
  the client raising, it returns the same message, removes nothing and leaves directories
  and files as they were.
\<close>

theorem download_temporary_directory:
  assumes "fst (gate env)"
  shows
    "(mkdtemp_name env s = Some d \<and> download_outcome env competition d file_name force = Inr v \<longrightarrow>
        (let out = competition_download_files env competition [] file_name force s
         in fst out = Inr (PStr (download_message d file_name)) \<and>
            suffix d (download_message d file_name) \<and>
            d \<notin> set (dirs s) \<and> d \<notin> set (files s) \<and>
            dirs (snd out) = d # dirs s \<and> files (snd out) = files s \<and>
            new_events s (snd out) =
              [EnsureAuthenticated, MkDTemp d, download_event competition d file_name force])) \<and>
     (mkdtemp_name env s = Some d \<and> download_outcome env competition d file_name force = Inl e \<longrightarrow>
        (let out = competition_download_files env competition [] file_name force s
         in fst out = Inr (PStr (''Error downloading competition files: '' @ e)) \<and>
            new_events s (snd out) =
              [EnsureAuthenticated, MkDTemp d, download_event competition d file_name force, RmTree d] \<and>
            dirs (snd out) = (if rmtree_ok env d then filter (\<lambda>q. \<not> below d q) (dirs s) else d # dirs s) \<and>
            (rmtree_ok env d \<longrightarrow> d \<notin> set (dirs (snd out))))) \<and>
     (path \<noteq> [] \<and> download_outcome env competition path file_name force = Inl e \<longrightarrow>
        (let out = competition_download_files env competition path file_name force s
         in fst out = Inr (PStr (''Error downloading competition files: '' @ e)) \<and>
            dirs (snd out) = dirs s \<and> files (snd out) = files s \<and>
            filter is_rmtree (new_events s (snd out)) = []))"
proof (intro conjI impI)
  assume h: "mkdtemp_name env s = Some d \<and> download_outcome env competition d file_name force = Inr v"
  show "let out = competition_download_files env competition [] file_name force s
         in fst out = Inr (PStr (download_message d file_name)) \<and>
            suffix d (download_message d file_name) \<and>
            d \<notin> set (dirs s) \<and> d \<notin> set (files s) \<and>
            dirs (snd out) = d # dirs s \<and> files (snd out) = files s \<and>
            new_events s (snd out) =
              [EnsureAuthenticated, MkDTemp d, download_event competition d file_name force]"
    using download_temp_success [OF assms, of s d competition file_name force v] h
      mkdtemp_name_fresh [of env s d] suffix_download_message [of d file_name]
    by (simp add: new_events_def)
next
  assume h: "mkdtemp_name env s = Some d \<and> download_outcome env competition d file_name force = Inl e"
  show "let out = competition_download_files env competition [] file_name force s
         in fst out = Inr (PStr (''Error downloading competition files: '' @ e)) \<and>
            new_events s (snd out) =
              [EnsureAuthenticated, MkDTemp d, download_event competition d file_name force, RmTree d] \<and>
            dirs (snd out) = (if rmtree_ok env d then filter (\<lambda>q. \<not> below d q) (dirs s) else d # dirs s) \<and>
            (rmtree_ok env d \<longrightarrow> d \<notin> set (dirs (snd out)))"
    using download_temp_failure [OF assms, of s d competition file_name force e] h
    by (simp add: new_events_def rmtree_def below_def)
next
  assume h: "path \<noteq> [] \<and> download_outcome env competition path file_name force = Inl e"
  show "let out = competition_download_files env competition path file_name force s
         in fst out = Inr (PStr (''Error downloading competition files: '' @ e)) \<and>
            dirs (snd out) = dirs s \<and> files (snd out) = files s \<and>
            filter is_rmtree (new_events s (snd out)) = []"
    using download_given_failure [OF assms, of path competition file_name force e s] h
    by (simp add: new_events_def is_rmtree_download_event)
qed

theorem download_temporary_directory_witness:
  "fst (competition_download_files serving ''titanic'' [] ''train.csv'' False sys1) =
     Inr (PStr (''Downloaded file '' @ quoted ''train.csv'' @ '' to /tmp/tmpb2'')) \<and>
   dirs (snd (competition_download_files serving ''titanic'' [] ''train.csv'' False sys1)) =
     [''/tmp/tmpb2'', ''/tmp/tmpa1'', ''/data''] \<and>
   fst (competition_download_files failing_client ''titanic'' [] [] False sys0) =
     Inr (PStr ''Error downloading competition files: 503 Service Unavailable'') \<and>
   dirs (snd (competition_download_files failing_client ''titanic'' [] [] False sys0)) = [] \<and>
   new_events sys0 (snd (competition_download_files failing_client ''titanic'' [] [] False sys0)) =
     [EnsureAuthenticated, MkDTemp ''/tmp/tmpa1'',
      ApiCall ''competition_download_files'' [PStr ''titanic'', PStr ''/tmp/tmpa1'', PBool False],
      RmTree ''/tmp/tmpa1''] \<and>
   fst (competition_download_files failing_client ''titanic'' ''/data'' [] False sys1) =
     Inr (PStr ''Error downloading competition files: 503 Service Unavailable'') \<and>
   dirs (snd (competition_download_files failing_client ''titanic'' ''/data'' [] False sys1)) =
     [''/tmp/tmpa1'', ''/data'']"
proof -
  have a: "fst (gate serving)" "mkdtemp_name serving sys1 = Some ''/tmp/tmpb2''"
    "download_outcome serving ''titanic'' ''/tmp/tmpb2'' ''train.csv'' False = Inr PNone"
    by (simp_all add: serving_def sys1_def mkdtemp_name_def download_outcome_def download_request_def)
  have b: "fst (gate failing_client)" "mkdtemp_name failing_client sys0 = Some ''/tmp/tmpa1''"
    "download_outcome failing_client ''titanic'' ''/tmp/tmpa1'' [] False = Inl ''503 Service Unavailable''"
    "rmtree_ok failing_client ''/tmp/tmpa1''"
    by (simp_all add: failing_client_def sys0_def mkdtemp_name_def download_outcome_def download_request_def)
  have c: "''/data'' \<noteq> []"
    "download_outcome failing_client ''titanic'' ''/data'' [] False = Inl ''503 Service Unavailable''"
    by (simp_all add: failing_client_def download_outcome_def download_request_def)
  note t1 = download_temporary_directory [OF a(1), where s = sys1 and d = "''/tmp/tmpb2''"
      and competition = "''titanic''" and file_name = "''train.csv''" and force = False and v = PNone]
  note t2 = download_temporary_directory [OF b(1), where s = sys0 and d = "''/tmp/tmpa1''"
      and competition = "''titanic''" and file_name = "[]" and force = False
      and e = "''503 Service Unavailable''"]
  note t3 = download_temporary_directory [OF b(1), where s = sys1 and path = "''/data''"
      and competition = "''titanic''" and file_name = "[]" and force = False
      and e = "''503 Service Unavailable''"]
  have r1: "fst (competition_download_files serving ''titanic'' [] ''train.csv'' False sys1) =
        Inr (PStr (download_message ''/tmp/tmpb2'' ''train.csv''))"
    "dirs (snd (competition_download_files serving ''titanic'' [] ''train.csv'' False sys1)) =
        ''/tmp/tmpb2'' # dirs sys1"
    "files (snd (competition_download_files serving ''titanic'' [] ''train.csv'' False sys1)) =
        files sys1"
    "new_events sys1 (snd (competition_download_files serving ''titanic'' [] ''train.csv'' False sys1)) =
        [EnsureAuthenticated, MkDTemp ''/tmp/tmpb2'',
         download_event ''titanic'' ''/tmp/tmpb2'' ''train.csv'' False]"
    using t1 a by (simp_all add: Let_def)
  have r2: "fst (competition_download_files failing_client ''titanic'' [] [] False sys0) =
        Inr (PStr (''Error downloading competition files: '' @ ''503 Service Unavailable''))"
    "dirs (snd (competition_download_files failing_client ''titanic'' [] [] False sys0)) =
        filter (\<lambda>q. \<not> below ''/tmp/tmpa1'' q) (dirs sys0)"
    "new_events sys0 (snd (competition_download_files failing_client ''titanic'' [] [] False sys0)) =
        [EnsureAuthenticated, MkDTemp ''/tmp/tmpa1'',
         download_event ''titanic'' ''/tmp/tmpa1'' [] False, RmTree ''/tmp/tmpa1'']"
    using t2 b by (simp_all add: Let_def)
  have r3: "fst (competition_download_files failing_client ''titanic'' ''/data'' [] False sys1) =
        Inr (PStr (''Error downloading competition files: '' @ ''503 Service Unavailable''))"
    "dirs (snd (competition_download_files failing_client ''titanic'' ''/data'' [] False sys1)) =
        dirs sys1"
    using t3 c by (simp_all add: Let_def)
  show ?thesis
    unfolding r1(1,2) r2 r3
    by (simp add: sys0_def sys1_def download_message_def download_event_def download_request_def)
qed

section \<open>The shapes of a leaderboard\<close>

lemma leaderboard_body_dumps: "leaderboard_body v = json_dumps v"
  by (cases v) (simp_all add: leaderboard_body_def)

lemma competition_leaderboard_passed:
  assumes "fst (gate env)"
  shows "competition_leaderboard env competition s =
           (Inr (except_as ''Error retrieving leaderboard: ''
                   (py_bind (client env ''competition_leaderboard_view'' [PStr competition]) json_dumps)),
            s\<lparr>log := log s @ [EnsureAuthenticated,
                               ApiCall ''competition_leaderboard_view'' [PStr competition]]\<rparr>)"
proof -
  have "leaderboard_body = json_dumps"
    by (rule ext) (rule leaderboard_body_dumps)
  with assms show ?thesis
    by (simp add: competition_leaderboard_def ensure_authenticated_def call_api_def)
qed

text \<open>
  C1. The leaderboard handler on the four shapes. The test for a list and the
  \<^verbatim>\<open>str(leaderboard)\<close> for a raw string stand inside the branch taken only by a dict with
  the key \<^verbatim>\<open>submissions\<close>, so they are never reached. A list of entry objects comes back
  as an error message (the objects are not serializable), a list of records comes back
  whole and not projected, a dict wrapping \<^verbatim>\<open>submissions\<close> comes back as that dict and not
  as the list inside it, and a raw string comes back as a JSON string literal, in quotes.
\<close>

theorem leaderboard_shapes_evaluated:
  "fst (competition_leaderboard (answering (PList [board_object])) ''titanic'' sys0) =
     Inr (PStr ''Error retrieving leaderboard: Object of type LeaderboardEntry is not JSON serializable'') \<and>
   fst (competition_leaderboard (answering (PList [board_record])) ''titanic'' sys0) \<noteq>
     Inr (except_as ''Error retrieving leaderboard: ''
            (dump_projected leaderboard_entry (PList [board_record]))) \<and>
   fst (competition_leaderboard (answering (PDict [(''submissions'', PList [board_record])])) ''titanic'' sys0) \<noteq>
     fst (competition_leaderboard (answering (PList [board_record])) ''titanic'' sys0) \<and>
   fst (competition_leaderboard (answering (PDict [(''submissions'', PList [board_record])])) ''titanic'' sys0) \<noteq>
     Inr (except_as ''Error retrieving leaderboard: ''
            (dump_projected leaderboard_entry (PList [board_record]))) \<and>
   fst (competition_leaderboard (answering (PStr ''rank,team'')) ''titanic'' sys0) =
     Inr (PStr (CHR 0x22 # ''rank,team'' @ [CHR 0x22])) \<and>
   fst (competition_leaderboard (answering (PStr ''rank,team'')) ''titanic'' sys0) \<noteq>
     Inr (PStr ''rank,team'')"
proof -
  have g: "\<And>v. fst (gate (answering v))"
    and c: "\<And>v n a. client (answering v) n a = Inr v"
    by (simp_all add: answering_def)
  show ?thesis
    by (simp add: competition_leaderboard_passed [OF g] c py_bind_def except_as_def json_dumps_def
        board_object_def board_record_def dump_projected_def project_all_def leaderboard_entry_def
        py_getattr_def py_getattr_opt_def stringify_def json_str_def json_char_def newline_indent_def
        show_int_def)
qed

section \<open>The credential resolver\<close>











text \<open>
  C6 as stated. Both variables are set, the user name to the empty string: the resolver
  takes the empty value for a missing one, opens the first candidate file and overwrites
  both variables.
\<close>

theorem resolver_set_but_empty_counterexample:
  "environ empty_username ''KAGGLE_USERNAME'' = Some [] \<and>
   environ empty_username ''KAGGLE_KEY'' = Some ''k0'' \<and>
   trace (snd (load_kaggle_config ''/root'' only_first empty_username)) =
     [Exists ''/root/.kaggle/kaggle.json'', Open ''/root/.kaggle/kaggle.json'',
      LogInfo ''Loaded Kaggle credentials from /root/.kaggle/kaggle.json''] \<and>
   environ (snd (load_kaggle_config ''/root'' only_first empty_username)) ''KAGGLE_USERNAME'' =
     Some ''alice'' \<and>
   environ (snd (load_kaggle_config ''/root'' only_first empty_username)) ''KAGGLE_KEY'' =
     Some ''s3cret''"
  by (simp add: load_kaggle_config_def env_missing_def empty_username_def kaggle_locations_def
      only_first_def good_file_def try_location_def py_bind_def setenv_def)

text \<open>
  C6, amended. When both \<^verbatim>\<open>KAGGLE_USERNAME\<close> and \<^verbatim>\<open>KAGGLE_KEY\<close> are set to non-empty values
  before resolution, the resolver returns at once with the state it was given: no
  candidate path is tested or opened, nothing is logged, and the environment is unchanged.
\<close>

theorem resolver_environment_precedence:
  assumes "environ st ''KAGGLE_USERNAME'' = Some u" and "u \<noteq> []"
    and "environ st ''KAGGLE_KEY'' = Some k" and "k \<noteq> []"
  shows "load_kaggle_config home fs st = (Inr (), st)"
  using assms by (simp add: load_kaggle_config_def env_missing_def)

theorem resolver_environment_precedence_witness:
  "fst (load_kaggle_config ''/root'' only_first both_set) = Inr () \<and>
   trace (snd (load_kaggle_config ''/root'' only_first both_set)) = [] \<and>
   environ (snd (load_kaggle_config ''/root'' only_first both_set)) ''KAGGLE_USERNAME'' = Some ''bob'' \<and>
   environ (snd (load_kaggle_config ''/root'' only_first both_set)) ''KAGGLE_KEY'' = Some ''k0''"
proof -
  have "environ both_set ''KAGGLE_USERNAME'' = Some ''bob''" and "''bob'' \<noteq> []"
    and "environ both_set ''KAGGLE_KEY'' = Some ''k0''" and "''k0'' \<noteq> []"
    by (simp_all add: both_set_def)
  from resolver_environment_precedence [OF this, of "''/root''" only_first]
  show ?thesis by (simp add: both_set_def)
qed







section \<open>Date fields\<close>

lemma stringify_getattr:
  "stringify (py_getattr x f PNone) = date_rendering (py_getattr_opt x f)"
  by (simp add: stringify_def py_getattr_def date_rendering_def split: option.splits)

lemma handler_applies_projection:
  assumes "fst (gate env)"
  shows "fst (competitions_list env search category group_name sort_by page s) =
           Inr (except_as ''Error listing competitions: ''
                  (py_bind (client env ''competitions_list''
                              [PStr search, PStr category, PStr group_name, PStr sort_by, PInt page])
                     (dump_projected competition_entry)))"
    and "fst (competition_details env competition s) =
           Inr (except_as ''Error getting competition details: ''
                  (py_bind (client env ''competition_get'' [PStr competition])
                     (\<lambda>x. json_dumps (competition_detail x))))"
    and "fst (competition_list_files env competition s) =
           Inr (except_as ''Error listing competition files: ''
                  (py_bind (client env ''competition_list_files'' [PStr competition])
                     (dump_projected file_entry)))"
    and "fst (competition_submissions env competition s) =
           Inr (except_as ''Error listing submissions: ''
                  (py_bind (client env ''competition_submissions'' [PStr competition])
                     (dump_projected submission_entry)))"
  using assms
  by (simp_all add: competitions_list_def competition_details_def competition_list_files_def
      competition_submissions_def ensure_authenticated_def call_api_def)

lemma dump_projected_list:
  "dump_projected entry (PList xs) = json_dumps (PList (map entry xs))"
  by (simp add: dump_projected_def project_all_def py_bind_def)

text \<open>
  C9 as stated. A deadline that is present with the value 0, the epoch as a number, has
  the string form \<^verbatim>\<open>0\<close> but is rendered as null, since \<^verbatim>\<open>str(v) if v else None\<close> tests the
  truth of the value and not its presence. And the \<^verbatim>\<open>submissionDate\<close> of a leaderboard entry
  is not rendered at all: the leaderboard handler never reaches its projection, and a
  numeric date comes out as the number it is.
\<close>

theorem date_present_but_false_counterexample:
  "py_getattr_opt epoch_competition ''deadline'' = Some (PInt 0) \<and>
   py_str (PInt 0) = ''0'' \<and>
   field_of (competition_entry epoch_competition) ''deadline'' = Some PNone \<and>
   field_of (competition_entry epoch_competition) ''deadline'' \<noteq> Some (PStr (py_str (PInt 0))) \<and>
   fst (competition_leaderboard (answering dated_board) ''titanic'' sys0) =
     Inr (PStr (''['' @ [CHR 0x0A] @ ''  {'' @ [CHR 0x0A] @ ''    '' @ [CHR 0x22] @ ''submissionDate''
                @ [CHR 0x22] @ '': 5'' @ [CHR 0x0A] @ ''  }'' @ [CHR 0x0A] @ '']''))"
  by code_simp

text \<open>
  C9, amended. In each projection that a handler applies (competitions and competition
  details with \<^verbatim>\<open>deadline\<close>, competition files with \<^verbatim>\<open>creationDate\<close>, submissions with
  \<^verbatim>\<open>date\<close>) the date field is the string form of the raw value when the raw field is present
  with a true value, and null when it is absent or present with a false value (None, 0,
  the empty string); so what stands there in the output is a string or null, never the raw
  value itself. The four handlers, the gate passed, return the serialization of exactly
  these projections.
\<close>

theorem date_fields_stringified:
  "field_of (competition_entry x) ''deadline'' = Some (date_rendering (py_getattr_opt x ''deadline'')) \<and>
   field_of (competition_detail x) ''deadline'' = Some (date_rendering (py_getattr_opt x ''deadline'')) \<and>
   field_of (file_entry x) ''creationDate'' = Some (date_rendering (py_getattr_opt x ''creationDate'')) \<and>
   field_of (submission_entry x) ''date'' = Some (date_rendering (py_getattr_opt x ''date'')) \<and>
   (date_rendering a = PNone \<or> is_str (date_rendering a)) \<and>
   (fst (gate env) \<longrightarrow>
      fst (competitions_list env search category group_name sort_by page s) =
        Inr (except_as ''Error listing competitions: ''
               (py_bind (client env ''competitions_list''
                           [PStr search, PStr category, PStr group_name, PStr sort_by, PInt page])
                  (dump_projected competition_entry))) \<and>
      fst (competition_details env competition s) =
        Inr (except_as ''Error getting competition details: ''
               (py_bind (client env ''competition_get'' [PStr competition])
                  (\<lambda>x. json_dumps (competition_detail x)))) \<and>
      fst (competition_list_files env competition s) =
        Inr (except_as ''Error listing competition files: ''
               (py_bind (client env ''competition_list_files'' [PStr competition])
                  (dump_projected file_entry))) \<and>
      fst (competition_submissions env competition s) =
        Inr (except_as ''Error listing submissions: ''
               (py_bind (client env ''competition_submissions'' [PStr competition])
                  (dump_projected submission_entry)))) \<and>
   dump_projected entry (PList xs) = json_dumps (PList (map entry xs))"
proof -
  have fields:
    "field_of (competition_entry x) ''deadline'' = Some (date_rendering (py_getattr_opt x ''deadline''))"
    "field_of (competition_detail x) ''deadline'' = Some (date_rendering (py_getattr_opt x ''deadline''))"
    "field_of (file_entry x) ''creationDate'' = Some (date_rendering (py_getattr_opt x ''creationDate''))"
    "field_of (submission_entry x) ''date'' = Some (date_rendering (py_getattr_opt x ''date''))"
    by (simp_all add: competition_entry_def competition_detail_def file_entry_def
        submission_entry_def field_of_def stringify_getattr)
  have shape: "date_rendering a = PNone \<or> is_str (date_rendering a)"
    by (simp add: date_rendering_def split: option.splits)
  from fields shape handler_applies_projection [of env] dump_projected_list [of entry xs]
  show ?thesis by simp
qed

theorem date_fields_stringified_witness:
  "field_of (competition_entry dated_competition) ''deadline'' = Some (PStr ''2030-01-01 00:00:00'') \<and>
   field_of (file_entry undated_file) ''creationDate'' = Some PNone \<and>
   fst (competition_list_files (answering (PList [undated_file])) ''titanic'' sys0) =
     Inr (except_as ''Error listing competition files: '' (json_dumps (PList [file_entry undated_file])))"
proof -
  have "date_rendering (py_getattr_opt dated_competition ''deadline'') = PStr ''2030-01-01 00:00:00''"
    and "date_rendering (py_getattr_opt undated_file ''creationDate'') = PNone"
    by (simp_all add: date_rendering_def py_getattr_opt_def dated_competition_def undated_file_def)
  moreover have "fst (gate (answering (PList [undated_file])))"
    and "client (answering (PList [undated_file])) ''competition_list_files'' [PStr ''titanic''] =
           Inr (PList [undated_file])"
    by (simp_all add: answering_def)
  ultimately show ?thesis
    using date_fields_stringified [of dated_competition _ "answering (PList [undated_file])"]
      date_fields_stringified [of undated_file _ "answering (PList [undated_file])" _ _ _ _ _ sys0
        "''titanic''" file_entry "[undated_file]"]
    by (simp add: py_bind_def)
qed

section \<open>The normalized list of competitions\<close>

lemma sequence_Inr:
  "(\<And>r. r \<in> set rs \<Longrightarrow> \<exists>t. r = Inr t) \<Longrightarrow> \<exists>ts. sequence rs = Inr ts"
proof (induction rs)
  case Nil
  then show ?case by simp
next
  case (Cons r rs)
  from Cons.prems [of r] obtain t where "r = Inr t" by auto
  moreover from Cons.IH Cons.prems obtain ts where "sequence rs = Inr ts" by auto
  ultimately show ?case by simp
qed

lemma json_enc_jsonable: "jsonable v \<Longrightarrow> \<exists>t. json_enc lvl v = Inr t"
proof (induction lvl v rule: json_enc.induct)
  case (5 lvl xs)
  show ?case
  proof (cases "xs = []")
    case True
    then show ?thesis by simp
  next
    case False
    have "\<exists>ts. sequence (map (json_enc (Suc lvl)) xs) = Inr ts"
    proof (rule sequence_Inr)
      fix r assume "r \<in> set (map (json_enc (Suc lvl)) xs)"
      then obtain x where "x \<in> set xs" and "r = json_enc (Suc lvl) x" by auto
      with "5.IH" [OF False, of x] "5.prems" show "\<exists>t. r = Inr t" by simp
    qed
    with False show ?thesis by (auto simp: py_bind_def)
  qed
next
  case (6 lvl kvs)
  show ?case
  proof (cases "kvs = []")
    case True
    then show ?thesis by simp
  next
    case False
    let ?item = "\<lambda>kv. py_bind (json_enc (Suc lvl) (snd kv)) (\<lambda>t. Inr (json_str (fst kv) @ '': '' @ t))"
    have "\<exists>ts. sequence (map ?item kvs) = Inr ts"
    proof (rule sequence_Inr)
      fix r assume "r \<in> set (map ?item kvs)"
      then obtain kv where "kv \<in> set kvs" and r: "r = ?item kv" by auto
      with "6.IH" [OF False, of kv] "6.prems" obtain t where "json_enc (Suc lvl) (snd kv) = Inr t"
        by auto
      with r show "\<exists>t. r = Inr t" by (simp add: py_bind_def)
    qed
    with False show ?thesis by (auto simp: py_bind_def)
  qed
qed simp_all

lemma json_dumps_jsonable: "jsonable v \<Longrightarrow> \<exists>t. json_dumps v = Inr (PStr t)"
  using json_enc_jsonable [of v 0] by (auto simp: json_dumps_def py_bind_def)

lemma jsonable_stringify: "jsonable (stringify v)"
  by (simp add: stringify_def)

lemma competition_entry_shape:
  "is_dict (competition_entry x) \<and> keys_of (competition_entry x) = competition_fields"
  by (simp add: competition_entry_def keys_of_def competition_fields_def)

lemma py_getattr_absent: "py_getattr_opt x f = None \<Longrightarrow> py_getattr x f d = d"
  by (simp add: py_getattr_def)

lemma stringify_None: "stringify PNone = PNone"
  by (simp add: stringify_def)

lemma competition_entry_absent:
  assumes "f \<in> set competition_fields" and "py_getattr_opt x f = None"
  shows "field_of (competition_entry x) f = Some PNone"
proof -
  from assms(2) have a: "py_getattr x f PNone = PNone"
    by (rule py_getattr_absent)
  from assms(1) have "f = ''ref'' \<or> f = ''title'' \<or> f = ''url'' \<or> f = ''category'' \<or>
      f = ''deadline'' \<or> f = ''reward'' \<or> f = ''teamCount'' \<or> f = ''userHasEntered'' \<or>
      f = ''description''"
    by (simp add: competition_fields_def)
  then show ?thesis
    using a
    by (elim disjE) (simp_all add: competition_entry_def field_of_def Let_def stringify_None)
qed

lemma competition_entry_jsonable:
  assumes "\<And>f. f \<in> set competition_fields \<Longrightarrow> f \<noteq> ''deadline'' \<Longrightarrow> jsonable (py_getattr x f PNone)"
  shows "jsonable (competition_entry x)"
proof -
  have "jsonable (py_getattr x ''ref'' PNone)" "jsonable (py_getattr x ''title'' PNone)"
    "jsonable (py_getattr x ''url'' PNone)" "jsonable (py_getattr x ''category'' PNone)"
    "jsonable (py_getattr x ''reward'' PNone)" "jsonable (py_getattr x ''teamCount'' PNone)"
    "jsonable (py_getattr x ''userHasEntered'' PNone)" "jsonable (py_getattr x ''description'' PNone)"
    by (rule assms; simp add: competition_fields_def)+
  then show ?thesis
    by (simp add: competition_entry_def Let_def jsonable_stringify)
qed

text \<open>
  C8. The gate passed and the client returning a list of \<open>N\<close> records, the handler builds a
  list of exactly \<open>N\<close> records, one for each raw record in order, and returns its
  serialization. Each record is a dict whose keys are the nine fields of the allow-list in
  their fixed order, whatever the raw record holds, so the order of the keys in the output
  is the same at every call; a field absent on the raw record is null in the output. Nothing
  in the projection raises, and when the fields read hold serializable values the output is
  the JSON text of the list.
\<close>

theorem competitions_list_projection:
  assumes "fst (gate env)"
    and "client env ''competitions_list''
           [PStr search, PStr category, PStr group_name, PStr sort_by, PInt page] = Inr (PList xs)"
  shows "project_all competition_entry (PList xs) = Inr (map competition_entry xs) \<and>
         length (map competition_entry xs) = length xs \<and>
         fst (competitions_list env search category group_name sort_by page s) =
           Inr (except_as ''Error listing competitions: ''
                  (json_dumps (PList (map competition_entry xs)))) \<and>
         (\<forall>x. is_dict (competition_entry x) \<and> keys_of (competition_entry x) = competition_fields \<and>
              (\<forall>f \<in> set competition_fields.
                 py_getattr_opt x f = None \<longrightarrow> field_of (competition_entry x) f = Some PNone)) \<and>
         ((\<forall>x \<in> set xs. \<forall>f \<in> set competition_fields.
             f \<noteq> ''deadline'' \<longrightarrow> jsonable (py_getattr x f PNone)) \<longrightarrow>
          (\<exists>t. json_dumps (PList (map competition_entry xs)) = Inr (PStr t) \<and>
               fst (competitions_list env search category group_name sort_by page s) = Inr (PStr t)))"
proof -
  have projected: "project_all competition_entry (PList xs) = Inr (map competition_entry xs)"
    by (simp add: project_all_def py_bind_def)
  have returned: "fst (competitions_list env search category group_name sort_by page s) =
      Inr (except_as ''Error listing competitions: '' (json_dumps (PList (map competition_entry xs))))"
    using assms
    by (simp add: competitions_list_def ensure_authenticated_def call_api_def py_bind_def
        dump_projected_def projected)
  have shape: "is_dict (competition_entry x) \<and> keys_of (competition_entry x) = competition_fields \<and>
      (\<forall>f \<in> set competition_fields.
         py_getattr_opt x f = None \<longrightarrow> field_of (competition_entry x) f = Some PNone)" for x
    using competition_entry_shape [of x] competition_entry_absent [of _ x] by blast
  have json_text: "\<exists>t. json_dumps (PList (map competition_entry xs)) = Inr (PStr t) \<and>
      fst (competitions_list env search category group_name sort_by page s) = Inr (PStr t)"
    if ok: "\<forall>x \<in> set xs. \<forall>f \<in> set competition_fields.
             f \<noteq> ''deadline'' \<longrightarrow> jsonable (py_getattr x f PNone)"
  proof -
    have "jsonable (PList (map competition_entry xs))"
      using ok by (auto intro: competition_entry_jsonable)
    then obtain t where "json_dumps (PList (map competition_entry xs)) = Inr (PStr t)"
      using json_dumps_jsonable by blast
    with returned show ?thesis by (simp add: except_as_def)
  qed
  from projected returned shape json_text show ?thesis
    by simp
qed

theorem competitions_list_projection_witness:
  "length (map competition_entry three_competitions) = 3 \<and>
   keys_of (competition_entry (three_competitions ! 1)) =
     [''ref'', ''title'', ''url'', ''category'', ''deadline'', ''reward'', ''teamCount'',
      ''userHasEntered'', ''description''] \<and>
   field_of (competition_entry (three_competitions ! 1)) ''reward'' = Some PNone \<and>
   field_of (competition_entry (three_competitions ! 0)) ''reward'' = Some (PStr ''Knowledge'') \<and>
   field_of (competition_entry (three_competitions ! 2)) ''reward'' = Some (PStr ''$100'') \<and>
   returns_text (competitions_list (answering (PList three_competitions))
                   [] ''all'' ''general'' ''latestDeadline'' 1 sys0)"
proof -
  have g: "fst (gate (answering (PList three_competitions)))"
    and c: "client (answering (PList three_competitions)) ''competitions_list''
              [PStr [], PStr ''all'', PStr ''general'', PStr ''latestDeadline'', PInt 1] =
            Inr (PList three_competitions)"
    by (simp_all add: answering_def)
  note inst = competitions_list_projection [OF g c, of sys0]
  have absent: "py_getattr_opt (three_competitions ! 1) ''reward'' = None"
    by (simp add: three_competitions_def py_getattr_opt_def)
  have ok: "\<forall>x \<in> set three_competitions. \<forall>f \<in> set competition_fields.
             f \<noteq> ''deadline'' \<longrightarrow> jsonable (py_getattr x f PNone)"
    by (simp add: three_competitions_def competition_fields_def py_getattr_def py_getattr_opt_def)
  from inst ok obtain t where
    "fst (competitions_list (answering (PList three_competitions))
            [] ''all'' ''general'' ''latestDeadline'' 1 sys0) = Inr (PStr t)"
    by blast
  then have as_text: "returns_text (competitions_list (answering (PList three_competitions))
                   [] ''all'' ''general'' ''latestDeadline'' 1 sys0)"
    by (cases "competitions_list (answering (PList three_competitions))
                   [] ''all'' ''general'' ''latestDeadline'' 1 sys0") simp
  from inst have keys: "keys_of (competition_entry (three_competitions ! 1)) = competition_fields"
    and null: "\<forall>f \<in> set competition_fields.
         py_getattr_opt (three_competitions ! 1) f = None \<longrightarrow>
         field_of (competition_entry (three_competitions ! 1)) f = Some PNone"
    by blast+
  from null absent have "field_of (competition_entry (three_competitions ! 1)) ''reward'' = Some PNone"
    by (simp add: competition_fields_def)
  moreover have "field_of (competition_entry (three_competitions ! 0)) ''reward'' = Some (PStr ''Knowledge'')"
    and "field_of (competition_entry (three_competitions ! 2)) ''reward'' = Some (PStr ''$100'')"
    by (simp_all add: three_competitions_def competition_entry_def field_of_def py_getattr_def
        py_getattr_opt_def Let_def)
  moreover have "length (map competition_entry three_competitions) = 3"
    by (simp add: three_competitions_def)
  ultimately show ?thesis
    using keys as_text by (simp add: competition_fields_def)
qed

section \<open>What leaves a handler\<close>

lemma json_dumps_is_str: "json_dumps v = Inr w \<Longrightarrow> is_str w"
  by (auto simp: json_dumps_def py_bind_def split: sum.splits)

lemma dump_projected_is_str: "dump_projected entry v = Inr w \<Longrightarrow> is_str w"
  by (auto simp: dump_projected_def py_bind_def dest: json_dumps_is_str split: sum.splits)

lemma leaderboard_body_is_str: "leaderboard_body v = Inr w \<Longrightarrow> is_str w"
  by (simp add: leaderboard_body_dumps json_dumps_is_str)

lemma returns_text_except_as:
  assumes "\<And>w. r = Inr w \<Longrightarrow> is_str w"
  shows "returns_text (Inr (except_as pre r), s)"
proof (cases r)
  case (Inl e)
  then show ?thesis by (simp add: except_as_def)
next
  case (Inr w)
  with assms have "is_str w" by simp
  then obtain t where "w = PStr t" by (cases w) simp_all
  with Inr show ?thesis by (simp add: except_as_def)
qed

lemma text_of_dump_projected:
  "returns_text (Inr (except_as pre (py_bind r (dump_projected entry))), s)"
  by (rule returns_text_except_as)
     (auto simp: py_bind_def dest: dump_projected_is_str split: sum.splits)

lemma text_of_json_dumps:
  "returns_text (Inr (except_as pre (py_bind r (\<lambda>v. json_dumps (f v)))), s)"
  by (rule returns_text_except_as)
     (auto simp: py_bind_def dest: json_dumps_is_str split: sum.splits)

lemma text_of_leaderboard_body:
  "returns_text (Inr (except_as pre (py_bind r leaderboard_body)), s)"
  by (rule returns_text_except_as)
     (auto simp: py_bind_def dest: leaderboard_body_is_str split: sum.splits)

lemma returns_text_competitions_list:
  "returns_text (competitions_list env search category group_name sort_by page s)"
proof (cases "fst (gate env)")
  case True
  then show ?thesis
    by (simp add: competitions_list_def ensure_authenticated_def call_api_def
        text_of_dump_projected)
next
  case False
  then show ?thesis
    by (simp add: competitions_list_def ensure_authenticated_def)
qed

lemma returns_text_competition_details: "returns_text (competition_details env competition s)"
proof (cases "fst (gate env)")
  case True
  then show ?thesis
    by (simp add: competition_details_def ensure_authenticated_def call_api_def text_of_json_dumps)
next
  case False
  then show ?thesis
    by (simp add: competition_details_def ensure_authenticated_def)
qed

lemma returns_text_competition_list_files: "returns_text (competition_list_files env competition s)"
proof (cases "fst (gate env)")
  case True
  then show ?thesis
    by (simp add: competition_list_files_def ensure_authenticated_def call_api_def
        text_of_dump_projected)
next
  case False
  then show ?thesis
    by (simp add: competition_list_files_def ensure_authenticated_def)
qed

lemma returns_text_competition_submissions: "returns_text (competition_submissions env competition s)"
proof (cases "fst (gate env)")
  case True
  then show ?thesis
    by (simp add: competition_submissions_def ensure_authenticated_def call_api_def
        text_of_dump_projected)
next
  case False
  then show ?thesis
    by (simp add: competition_submissions_def ensure_authenticated_def)
qed

lemma returns_text_competition_leaderboard: "returns_text (competition_leaderboard env competition s)"
proof (cases "fst (gate env)")
  case True
  then show ?thesis
    by (simp add: competition_leaderboard_def ensure_authenticated_def call_api_def
        text_of_leaderboard_body)
next
  case False
  then show ?thesis
    by (simp add: competition_leaderboard_def ensure_authenticated_def)
qed

lemma returns_text_download_try:
  "returns_text (download_try env competition path file_name force use_temp s)"
  by (simp add: download_try_def call_api_def split_def Let_def split: sum.splits)

lemma returns_text_competition_download_files:
  assumes "path \<noteq> [] \<or> mkdtemp_name env s \<noteq> None"
  shows "returns_text (competition_download_files env competition path file_name force s)"
proof (cases "fst (gate env)")
  case False
  then show ?thesis
    by (simp add: competition_download_files_def ensure_authenticated_def)
next
  case True
  let ?s1 = "s\<lparr>log := log s @ [EnsureAuthenticated]\<rparr>"
  have name: "mkdtemp_name env ?s1 = mkdtemp_name env s"
    by (simp add: mkdtemp_name_def)
  from assms name obtain p use_temp s2 where dest: "destination env path ?s1 = (Inr (p, use_temp), s2)"
    by (cases "path = []")
       (auto simp: destination_def mkdtemp_def py_bind_def split: option.splits)
  from True show ?thesis
    by (simp add: competition_download_files_def ensure_authenticated_def dest
        returns_text_download_try)
qed

lemma returns_value_competition_submit:
  "returns_value (competition_submit env competition file_path message s)"
proof (cases "fst (gate env)")
  case True
  then show ?thesis
    by (simp add: competition_submit_def ensure_authenticated_def call_api_def
        split: option.splits)
next
  case False
  then show ?thesis
    by (simp add: competition_submit_def ensure_authenticated_def)
qed

lemma returns_text_competition_submit:
  assumes "\<And>r. client env ''competition_submit'' [PStr file_path, PStr message, PStr competition] = Inr r
             \<Longrightarrow> is_str (submit_status r)"
  shows "returns_text (competition_submit env competition file_path message s)"
proof (cases "fst (gate env)")
  case True
  have "returns_text
      (Inr (except_as pre
              (py_bind (client env ''competition_submit''
                          [PStr file_path, PStr message, PStr competition])
                 (\<lambda>r. Inr (submit_status r)))), s')" for pre s'
    by (rule returns_text_except_as) (auto simp: py_bind_def dest: assms split: sum.splits)
  with True show ?thesis
    by (simp add: competition_submit_def ensure_authenticated_def call_api_def
        split: option.splits)
next
  case False
  then show ?thesis
    by (simp add: competition_submit_def ensure_authenticated_def)
qed

lemma submit_status_message:
  "py_hasattr r ''message'' \<Longrightarrow> py_truthy (py_getattr r ''message'' PNone) \<Longrightarrow>
   submit_status r = py_getattr r ''message'' PNone"
  by (simp add: submit_status_def)

text \<open>
  How far the handlers keep what leaves them to a string. Five of them return a string
  whatever the client does. The download handler does so when it is given a path or
  \<^verbatim>\<open>tempfile.mkdtemp\<close> delivers a directory. The submission handler always returns, and
  returns a string when the status it takes from the response is one; it hands on the
  \<^verbatim>\<open>message\<close> attribute of the response as it is.
\<close>

lemma handlers_return_text:
  "returns_text (competitions_list env search category group_name sort_by page s) \<and>
   returns_text (competition_details env competition s) \<and>
   returns_text (competition_list_files env competition s) \<and>
   returns_text (competition_submissions env competition s) \<and>
   returns_text (competition_leaderboard env competition s) \<and>
   (path \<noteq> [] \<or> mkdtemp_name env s \<noteq> None \<longrightarrow>
      returns_text (competition_download_files env competition path file_name force s)) \<and>
   returns_value (competition_submit env competition file_path message s) \<and>
   ((\<forall>r. client env ''competition_submit'' [PStr file_path, PStr message, PStr competition] = Inr r
          \<longrightarrow> is_str (submit_status r)) \<longrightarrow>
      returns_text (competition_submit env competition file_path message s))"
proof (intro conjI impI)
  assume "path \<noteq> [] \<or> mkdtemp_name env s \<noteq> None"
  then show "returns_text (competition_download_files env competition path file_name force s)"
    by (rule returns_text_competition_download_files)
next
  assume "\<forall>r. client env ''competition_submit'' [PStr file_path, PStr message, PStr competition] = Inr r
          \<longrightarrow> is_str (submit_status r)"
  then show "returns_text (competition_submit env competition file_path message s)"
    by (intro returns_text_competition_submit) simp
qed (rule returns_text_competitions_list returns_text_competition_details
    returns_text_competition_list_files returns_text_competition_submissions
    returns_text_competition_leaderboard returns_value_competition_submit)+

text \<open>
  C2. The download handler called without a destination path, the gate passed, in a
  process that has no usable temporary directory: \<^verbatim>\<open>tempfile.mkdtemp()\<close> stands before the
  \<^verbatim>\<open>try\<close> of the handler, so its exception leaves the handler instead of a string.
\<close>

theorem download_mkdtemp_raises:
  "competition_download_files no_tmp ''titanic'' [] [] False sys0 =
     (Inl ''[Errno 2] No usable temporary directory found'',
      \<lparr>dirs = [], files = [], log = [EnsureAuthenticated]\<rparr>)"
  by (simp add: competition_download_files_def ensure_authenticated_def destination_def
      mkdtemp_def mkdtemp_name_def py_bind_def no_tmp_def sys0_def)

end
